theory Spec2Isabelle
  imports Complex_Main
begin

section \<open>The preheat policy manager (src/pkg/p2p/preheat/policy/manager.go)\<close>

text \<open>
  The manager delegates persistence to a DAO and, on every read, runs \<open>parsePolicy\<close> on
  the schema it fetched: the raw texts \<open>FiltersStr\<close> and \<open>TriggerStr\<close> are decoded into the
  fields \<open>Filters\<close> and \<open>Trigger\<close>, and the value of every vulnerability filter is coerced
  to an integer.

  Conventions of the embedding.
  \<^item> A Go pointer is a \<open>ref option\<close>: \<open>None\<close> is the nil pointer, \<open>Some a\<close> points at address
    \<open>a\<close> of the store. Schemas, queries and keyword maps live in the store, since the code
    writes them in place. The filters and the trigger of a schema are allocated afresh by
    every decode and never shared, so the store holds them by value inside the schema; a
    pointer to a filter is a \<open>Filter option\<close>.
  \<^item> A slice is a list; the nil slice and the empty slice are both \<open>[]\<close> (the code never
    compares a slice with nil).
  \<^item> A Go function returning \<open>(v, error)\<close> returns an \<open>outcome\<close>: \<open>Ok v\<close> is the return
    \<open>(v, nil)\<close>, \<open>Fail e\<close> is the return \<open>(nil, e)\<close> (every error return of this file has
    nil as its first component), \<open>Panic\<close> is a run-time panic.
  \<^item> The call context is not modelled.
\<close>

subsection \<open>Dynamic values\<close>

text \<open>
  The contents of an \<open>interface{}\<close>. Decoding JSON into an \<open>interface{}\<close> yields nil, a bool,
  a float64, a string, a slice or a map; the coercion adds Go's \<open>int\<close>, and
  \<open>ListPoliciesByProject\<close> stores an \<open>int64\<close>. A float64 that JSON decoding produces is
  finite, so it is a rational number, and it is modelled by that number.
\<close>

datatype gvalue =
    VNil
  | VBool bool
  | VFloat64 rat
  | VString string
  | VArray "gvalue list"
  | VObject "(string \<times> gvalue) list"
  | VInt int
  | VInt64 int

subsection \<open>Errors\<close>

datatype strconv_err = ErrSyntax | ErrRange

text \<open>The error json.Unmarshal returns, by its text.\<close>

datatype json_error = UnmarshalError string

text \<open>The failure kinds of the error taxonomy.\<close>

datatype kind = InvalidInput | Malformed | NotFound | Unclassified

text \<open>
  The error values of this file, by how the code builds them: \<open>errors.New(msg)\<close>,
  \<open>errors.Wrapf(err, msg)\<close>, the \<open>*strconv.NumError\<close> of ParseInt (function name, input,
  cause), the error json.Unmarshal returned, and an error the DAO returned (with the kind
  the DAO gave it).
\<close>

datatype error =
    New string
  | Wrapf error string
  | NumError string string strconv_err
  | JSONError json_error
  | DAOError kind string

text \<open>
  Modelled from the spec: the package lib/errors, which classifies errors, is not under
  src/. Section 7 of the specification names the kinds: InvalidInput is a structurally
  invalid argument (the nil schema, the one \<open>errors.New\<close> of this file); Malformed is raw
  text that failed to decode, or a value that could not be coerced (the severity parse
  failure); a wrapped error keeps the kind of its cause; the DAO's errors carry their own.
\<close>

fun kind_of :: "error \<Rightarrow> kind" where
  "kind_of (New msg) = InvalidInput"
| "kind_of (Wrapf err msg) = kind_of err"
| "kind_of (NumError fn num err) = Malformed"
| "kind_of (JSONError err) = Malformed"
| "kind_of (DAOError k msg) = k"

datatype 'a outcome = Ok 'a | Fail error | Panic

subsection \<open>The model types of package models/policy and lib/q\<close>

text \<open>
  A filter has a type, a string, and a value of any shape. Modelled from the spec: the
  type declarations of models/policy are not under src/; section 8 of the specification
  gives the text of the vulnerability type.
\<close>

record Filter =
  Type :: string
  Value :: gvalue

definition FilterTypeVulnerability :: string where
  "FilterTypeVulnerability = ''vulnerability''"

text \<open>
  The schema: the four fields this file reads and writes. Every other field of the Go
  struct is in the record's extension \<open>more\<close>. The trigger's type \<open>'t\<close> is a parameter: only
  the decoder looks inside it.
\<close>

record 't Schema =
  FiltersStr :: string
  Filters :: "Filter option list"
  TriggerStr :: string
  Trigger :: "'t option"

type_synonym ref = nat

text \<open>
  A query: its keyword map, a reference (\<open>None\<close> is the nil map). The other fields of
  \<open>q.Query\<close> play no part in this file.
\<close>

record Query =
  Keywords :: "ref option"

subsection \<open>The store\<close>

text \<open>
  Every address holds an object; \<open>next_query\<close> and \<open>next_map\<close> are the addresses the next
  allocation of a query and of a map returns.
\<close>

record ('t, 'm) heap =
  schema_at :: "ref \<Rightarrow> ('t, 'm) Schema_scheme"
  query_at :: "ref \<Rightarrow> Query"
  map_at :: "ref \<Rightarrow> (string \<rightharpoonup> gvalue)"
  next_query :: ref
  next_map :: ref

subsection \<open>The Go runtime and standard library\<close>

text \<open>
  What this file takes from outside the repository: \<open>json.Unmarshal\<close> at the two types it is
  called at, and the result of converting a float64 to \<open>int\<close> when the truncated value does
  not fit (the language leaves it to the implementation). Decoding JSON \<open>null\<close> as an
  element of a slice of pointers gives a nil pointer, so the decoded sequence is a list of
  \<open>Filter option\<close>.
\<close>

record 't runtime =
  Unmarshal_filters :: "string \<Rightarrow> json_error + Filter option list"
  Unmarshal_trigger :: "string \<Rightarrow> json_error + 't"
  float64_overflow :: "rat \<Rightarrow> int"

text \<open>
  The conversion \<open>(int)(x)\<close> of a float64: the fraction is discarded, towards zero. Go's
  \<open>int\<close> has 64 bits on the platforms Harbor is built for.
\<close>

definition trunc :: "rat \<Rightarrow> int" where
  "trunc x = (if x < 0 then - \<lfloor>- x\<rfloor> else \<lfloor>x\<rfloor>)"

definition fits_int :: "int \<Rightarrow> bool" where
  "fits_int t = (- (2 ^ 63) \<le> t \<and> t < 2 ^ 63)"

definition float64_to_int :: "'t runtime \<Rightarrow> rat \<Rightarrow> int" where
  "float64_to_int R x =
     (if fits_int (trunc x) then trunc x else float64_overflow R x)"

text \<open>
  \<open>strconv.ParseUint(s, 10, 32)\<close>: the value and the error, as Go returns both. Only the
  digits 0 to 9 are accepted in base 10. \<open>n1 < n\<close>, the library's test for a wrapped
  64-bit sum, and \<open>n1 > maxVal\<close> are one test on natural numbers.
\<close>

definition maxVal :: nat where
  "maxVal = 2 ^ 32 - 1"

definition cutoff64 :: nat where
  "cutoff64 = (2 ^ 64 - 1) div 10 + 1"

definition digit_of :: "char \<Rightarrow> nat option" where
  "digit_of c =
     (let k = (of_char c :: nat) in if 48 \<le> k \<and> k \<le> 57 then Some (k - 48) else None)"

fun ParseUint_loop :: "nat \<Rightarrow> string \<Rightarrow> nat \<times> strconv_err option" where
  "ParseUint_loop n [] = (n, None)"
| "ParseUint_loop n (c # cs) =
     (case digit_of c of
        None \<Rightarrow> (0, Some ErrSyntax)
      | Some d \<Rightarrow>
          if cutoff64 \<le> n then (maxVal, Some ErrRange)
          else if maxVal < n * 10 + d then (maxVal, Some ErrRange)
          else ParseUint_loop (n * 10 + d) cs)"

definition ParseUint :: "string \<Rightarrow> nat \<times> strconv_err option" where
  "ParseUint s = (if s = [] then (0, Some ErrSyntax) else ParseUint_loop 0 s)"

text \<open>
  \<open>strconv.ParseInt(s, 10, 32)\<close>: an optional sign, then ParseUint; the result is in the
  signed 32-bit range or the call fails with a NumError.
\<close>

definition cutoff :: nat where
  "cutoff = 2 ^ 31"

definition ParseInt :: "string \<Rightarrow> error + int" where
  "ParseInt s0 =
     (case s0 of
        [] \<Rightarrow> Inl (NumError ''ParseInt'' s0 ErrSyntax)
      | c # cs \<Rightarrow>
          (let neg = (c = CHR ''-'');
               s = (if c = CHR ''+'' \<or> c = CHR ''-'' then cs else s0)
           in case ParseUint s of
                (un, Some ErrSyntax) \<Rightarrow> Inl (NumError ''ParseInt'' s0 ErrSyntax)
              | (un, _) \<Rightarrow>
                  if \<not> neg \<and> cutoff \<le> un then Inl (NumError ''ParseInt'' s0 ErrRange)
                  else if neg \<and> cutoff < un then Inl (NumError ''ParseInt'' s0 ErrRange)
                  else Inr (if neg then - int un else int un)))"

subsection \<open>parseFilters, parseTrigger, parsePolicy\<close>

text \<open>
  The body of the loop of \<open>parseFilters\<close> (lines 172 to 183) on one element \<open>f\<close> of the
  decoded slice. Reading \<open>f.Type\<close> through a nil pointer panics.
\<close>

definition coerce_filter :: "'t runtime \<Rightarrow> Filter option \<Rightarrow> Filter option outcome" where
  "coerce_filter R fp =
     (case fp of
        None \<Rightarrow> Panic
      | Some f \<Rightarrow>
          if Type f = FilterTypeVulnerability then
            (case Value f of
               VString s \<Rightarrow>
                 (case ParseInt s of
                    Inl err \<Rightarrow> Fail (Wrapf err ''parse filters'')
                  | Inr sev \<Rightarrow> Ok (Some (f\<lparr>Value := VInt sev\<rparr>)))
             | VFloat64 x \<Rightarrow> Ok (Some (f\<lparr>Value := VInt (float64_to_int R x)\<rparr>))
             | _ \<Rightarrow> Ok (Some f))
          else Ok (Some f))"

text \<open>The loop (lines 171 to 184): the elements in order, stopping at the first failure.\<close>

fun coerce_filters :: "'t runtime \<Rightarrow> Filter option list \<Rightarrow> Filter option list outcome" where
  "coerce_filters R [] = Ok []"
| "coerce_filters R (fp # fps) =
     (case coerce_filter R fp of
        Fail e \<Rightarrow> Fail e
      | Panic \<Rightarrow> Panic
      | Ok fp' \<Rightarrow>
          (case coerce_filters R fps of
             Fail e \<Rightarrow> Fail e
           | Panic \<Rightarrow> Panic
           | Ok fps' \<Rightarrow> Ok (fp' # fps')))"

definition parseFilters :: "'t runtime \<Rightarrow> string \<Rightarrow> Filter option list outcome" where
  "parseFilters R filterStr =
     (if length filterStr = 0 then Ok []
      else case Unmarshal_filters R filterStr of
             Inl err \<Rightarrow> Fail (JSONError err)
           | Inr filters \<Rightarrow> coerce_filters R filters)"

definition parseTrigger :: "'t runtime \<Rightarrow> string \<Rightarrow> 't option outcome" where
  "parseTrigger R triggerStr =
     (if length triggerStr = 0 then Ok None
      else case Unmarshal_trigger R triggerStr of
             Inl err \<Rightarrow> Fail (JSONError err)
           | Inr trigger \<Rightarrow> Ok (Some trigger))"

text \<open>The two assignments of \<open>parsePolicy\<close>, \<open>schema.Filters = filters\<close> and
  \<open>schema.Trigger = trigger\<close>, on the object at address \<open>p\<close>.\<close>

definition set_Filters ::
  "ref \<Rightarrow> Filter option list \<Rightarrow> ('t, 'm) heap \<Rightarrow> ('t, 'm) heap" where
  "set_Filters p filters h =
     h\<lparr>schema_at := (schema_at h)(p := (schema_at h p)\<lparr>Filters := filters\<rparr>)\<rparr>"

definition set_Trigger ::
  "ref \<Rightarrow> 't option \<Rightarrow> ('t, 'm) heap \<Rightarrow> ('t, 'm) heap" where
  "set_Trigger p trigger h =
     h\<lparr>schema_at := (schema_at h)(p := (schema_at h p)\<lparr>Trigger := trigger\<rparr>)\<rparr>"

definition parsePolicy ::
  "'t runtime \<Rightarrow> ('t, 'm) heap \<Rightarrow> ref option \<Rightarrow> ref option outcome \<times> ('t, 'm) heap" where
  "parsePolicy R h schema =
     (case schema of
        None \<Rightarrow> (Fail (New ''policy schema can not be nil''), h)
      | Some p \<Rightarrow>
          (case parseFilters R (FiltersStr (schema_at h p)) of
             Fail err \<Rightarrow> (Fail err, h)
           | Panic \<Rightarrow> (Panic, h)
           | Ok filters \<Rightarrow>
               (let h1 = set_Filters p filters h
                in case parseTrigger R (TriggerStr (schema_at h1 p)) of
                     Fail err \<Rightarrow> (Fail err, h1)
                   | Panic \<Rightarrow> (Panic, h1)
                   | Ok trigger \<Rightarrow> (Ok (Some p), set_Trigger p trigger h1))))"

subsection \<open>The manager\<close>

text \<open>
  The DAO is a collaborator: each method is any function of the store and its arguments
  that returns Go's pair of a result and an error, and a store. \<open>Count\<close>, \<open>Create\<close>,
  \<open>Update\<close> and \<open>Delete\<close> of the manager return what the DAO returns and are left out.
\<close>

record ('t, 'm) DAO =
  dao_Get ::
    "('t, 'm) heap \<Rightarrow> int \<Rightarrow> (ref option \<times> error option) \<times> ('t, 'm) heap"
  dao_GetByName ::
    "('t, 'm) heap \<Rightarrow> int \<Rightarrow> string \<Rightarrow> (ref option \<times> error option) \<times> ('t, 'm) heap"
  dao_List ::
    "('t, 'm) heap \<Rightarrow> ref option \<Rightarrow> (ref option list \<times> error option) \<times> ('t, 'm) heap"

record ('t, 'm) manager =
  dao :: "('t, 'm) DAO"

definition Get ::
  "'t runtime \<Rightarrow> ('t, 'm) manager \<Rightarrow> ('t, 'm) heap \<Rightarrow> int \<Rightarrow>
     ref option outcome \<times> ('t, 'm) heap" where
  "Get R m h ident =
     (case dao_Get (dao m) h ident of
        ((schema, Some err), h1) \<Rightarrow> (Fail err, h1)
      | ((schema, None), h1) \<Rightarrow> parsePolicy R h1 schema)"

definition GetByName ::
  "'t runtime \<Rightarrow> ('t, 'm) manager \<Rightarrow> ('t, 'm) heap \<Rightarrow> int \<Rightarrow> string \<Rightarrow>
     ref option outcome \<times> ('t, 'm) heap" where
  "GetByName R m h projectID name =
     (case dao_GetByName (dao m) h projectID name of
        ((schema, Some err), h1) \<Rightarrow> (Fail err, h1)
      | ((schema, None), h1) \<Rightarrow> parsePolicy R h1 schema)"

text \<open>
  The loop of \<open>ListPolicies\<close> (lines 109 to 115): \<open>parsePolicy\<close> on every element in order,
  each result written back to its place, stopping at the first error.
\<close>

fun parse_each ::
  "'t runtime \<Rightarrow> ('t, 'm) heap \<Rightarrow> ref option list \<Rightarrow>
     ref option list outcome \<times> ('t, 'm) heap" where
  "parse_each R h [] = (Ok [], h)"
| "parse_each R h (s # ss) =
     (case parsePolicy R h s of
        (Fail err, h1) \<Rightarrow> (Fail err, h1)
      | (Panic, h1) \<Rightarrow> (Panic, h1)
      | (Ok schema, h1) \<Rightarrow>
          (case parse_each R h1 ss of
             (Fail err, h2) \<Rightarrow> (Fail err, h2)
           | (Panic, h2) \<Rightarrow> (Panic, h2)
           | (Ok schemas, h2) \<Rightarrow> (Ok (schema # schemas), h2)))"

definition ListPolicies ::
  "'t runtime \<Rightarrow> ('t, 'm) manager \<Rightarrow> ('t, 'm) heap \<Rightarrow> ref option \<Rightarrow>
     ref option list outcome \<times> ('t, 'm) heap" where
  "ListPolicies R m h query =
     (case dao_List (dao m) h query of
        ((schemas, Some err), h1) \<Rightarrow> (Fail err, h1)
      | ((schemas, None), h1) \<Rightarrow> parse_each R h1 schemas)"

text \<open>\<open>&q.Query{}\<close>: a new query, its keyword map nil.\<close>

definition new_Query :: "('t, 'm) heap \<Rightarrow> ref \<times> ('t, 'm) heap" where
  "new_Query h =
     (next_query h,
      h\<lparr>query_at := (query_at h)(next_query h := \<lparr>Keywords = None\<rparr>),
        next_query := Suc (next_query h)\<rparr>)"

text \<open>\<open>make(map[string]interface{})\<close>: a new, empty map.\<close>

definition make_map :: "('t, 'm) heap \<Rightarrow> ref \<times> ('t, 'm) heap" where
  "make_map h =
     (next_map h,
      h\<lparr>map_at := (map_at h)(next_map h := Map.empty), next_map := Suc (next_map h)\<rparr>)"

text \<open>
  Lines 122 to 130 of \<open>ListPoliciesByProject\<close>: the query the call goes on with, and the
  store after the project has been written into its keyword map.
\<close>

definition inject_project ::
  "('t, 'm) heap \<Rightarrow> int \<Rightarrow> ref option \<Rightarrow> ref \<times> ('t, 'm) heap" where
  "inject_project h project query =
     (let (q, h1) = (case query of None \<Rightarrow> new_Query h | Some q \<Rightarrow> (q, h));
          (k, h2) =
            (case Keywords (query_at h1 q) of
               None \<Rightarrow>
                 (let (k, h') = make_map h1
                  in (k, h'\<lparr>query_at := (query_at h')(q := (query_at h' q)\<lparr>Keywords := Some k\<rparr>)\<rparr>))
             | Some k \<Rightarrow> (k, h1))
      in (q, h2\<lparr>map_at := (map_at h2)(k := (map_at h2 k)(''project_id'' \<mapsto> VInt64 project))\<rparr>))"

text \<open>Line 132: the call of \<open>ListPolicies\<close> with that query.\<close>

definition ListPoliciesByProject ::
  "'t runtime \<Rightarrow> ('t, 'm) manager \<Rightarrow> ('t, 'm) heap \<Rightarrow> int \<Rightarrow> ref option \<Rightarrow>
     ref option list outcome \<times> ('t, 'm) heap" where
  "ListPoliciesByProject R m h project query =
     (let (q, h') = inject_project h project query in ListPolicies R m h' (Some q))"

text \<open>The keyword map of the query at \<open>q\<close>, read through the store; a nil map has no entry.\<close>

definition keywords_of :: "('t, 'm) heap \<Rightarrow> ref \<Rightarrow> (string \<rightharpoonup> gvalue)" where
  "keywords_of h q = (case Keywords (query_at h q) of None \<Rightarrow> Map.empty | Some k \<Rightarrow> map_at h k)"

subsection \<open>Notions the statements use\<close>

text \<open>A value is an integer when it holds Go's \<open>int\<close>.\<close>

fun is_int :: "gvalue \<Rightarrow> bool" where
  "is_int (VInt n) = True"
| "is_int v = False"

text \<open>The two representations the coercion converts: a string and a float64.\<close>

fun is_string_or_float :: "gvalue \<Rightarrow> bool" where
  "is_string_or_float (VString s) = True"
| "is_string_or_float (VFloat64 x) = True"
| "is_string_or_float v = False"


text \<open>The decimal numeral of an integer: a minus sign when negative, no leading zero.\<close>

definition digit_char :: "nat \<Rightarrow> char" where
  "digit_char d = ''0123456789'' ! d"

function decimal_nat :: "nat \<Rightarrow> string" where
  "decimal_nat n =
     (if n < 10 then [digit_char n]
      else decimal_nat (n div 10) @ [digit_char (n mod 10)])"
  by pat_completeness auto
termination
  by (relation "measure id") auto

declare decimal_nat.simps [simp del]

definition decimal :: "int \<Rightarrow> string" where
  "decimal z = (if z < 0 then CHR ''-'' # decimal_nat (nat (- z)) else decimal_nat (nat z))"

subsection \<open>Example inputs\<close>

text \<open>
  Texts as they sit in the database, and a runtime whose decoder knows them: it decodes
  each as json.Unmarshal does and rejects every other text. The trigger of the examples is
  the text of its type. The float64 nearest to 7.9 is 4447304632028365 / 2^49.
\<close>

definition float64_7_9 :: rat where
  "float64_7_9 = 4447304632028365 / 562949953421312"

definition severity_text :: string where
  \<open>severity_text =
     ''[{"type":"vulnerability","value":"7"},{"type":"vulnerability","value":7.9},{"type":"vulnerability","value":true},{"type":"tag","value":"7"}]''\<close>

definition unparsable_text :: string where
  \<open>unparsable_text = ''[{"type":"vulnerability","value":"high"}]''\<close>

definition bool_text :: string where
  \<open>bool_text = ''[{"type":"vulnerability","value":true}]''\<close>

definition trigger_text :: string where
  \<open>trigger_text = ''{"type":"manual"}''\<close>

definition truncated_json :: json_error where
  "truncated_json = UnmarshalError ''unexpected end of JSON input''"

definition example_runtime :: "string runtime" where
  "example_runtime =
     \<lparr>Unmarshal_filters = (\<lambda>s.
        if s = severity_text then
          Inr [Some \<lparr>Type = ''vulnerability'', Value = VString ''7''\<rparr>,
               Some \<lparr>Type = ''vulnerability'', Value = VFloat64 float64_7_9\<rparr>,
               Some \<lparr>Type = ''vulnerability'', Value = VBool True\<rparr>,
               Some \<lparr>Type = ''tag'', Value = VString ''7''\<rparr>]
        else if s = unparsable_text then
          Inr [Some \<lparr>Type = ''vulnerability'', Value = VString ''high''\<rparr>]
        else if s = bool_text then
          Inr [Some \<lparr>Type = ''vulnerability'', Value = VBool True\<rparr>]
        else Inl truncated_json),
      Unmarshal_trigger = (\<lambda>s. if s = trigger_text then Inr ''manual'' else Inl truncated_json),
      float64_overflow = (\<lambda>x. - (2 ^ 63))\<rparr>"

definition example_schema :: "string \<Rightarrow> string \<Rightarrow> string Schema" where
  "example_schema fs ts = \<lparr>FiltersStr = fs, Filters = [], TriggerStr = ts, Trigger = None\<rparr>"

text \<open>
  A store: schema 0 is well formed, schema 1 has both raw texts empty, schema 2 has an
  unparsable severity and a truncated trigger, schema 3 has truncated filters, every other
  schema has a truncated trigger. Query 0 has one keyword, every other query has a nil
  keyword map.
\<close>

definition example_heap :: "(string, unit) heap" where
  "example_heap =
     \<lparr>schema_at = (\<lambda>a.
        if a = 0 then example_schema severity_text trigger_text
        else if a = 1 then example_schema [] []
        else if a = 2 then example_schema unparsable_text ''{''
        else if a = 3 then example_schema ''[{'' trigger_text
        else example_schema [] ''{''),
      query_at = (\<lambda>a. if a = 0 then \<lparr>Keywords = Some 0\<rparr> else \<lparr>Keywords = None\<rparr>),
      map_at = (\<lambda>a. if a = 0 then [''name'' \<mapsto> VString ''nightly''] else Map.empty),
      next_query = 2,
      next_map = 1\<rparr>"

text \<open>
  A manager whose DAO finds schema 0 under id 1 and under every name, and lists the page
  of schemas 0 and 1 for the nil query and the page of schemas 0, 4 and 1 for any other.
\<close>

definition example_manager :: "(string, unit) manager" where
  "example_manager =
     \<lparr>dao =
        \<lparr>dao_Get = (\<lambda>h i.
           if i = 1 then ((Some 0, None), h)
           else ((None, Some (DAOError NotFound ''not found'')), h)),
         dao_GetByName = (\<lambda>h projectID name. ((Some 0, None), h)),
         dao_List = (\<lambda>h query.
           if query = None then (([Some 0, Some 1], None), h)
           else (([Some 0, Some 4, Some 1], None), h))\<rparr>\<rparr>"


section \<open>Properties\<close>

subsection \<open>Auxiliary facts\<close>


lemma ParseInt_range:
  "ParseInt s = Inr z \<Longrightarrow> - (2 ^ 31) \<le> z \<and> z < 2 ^ 31"
  by (auto simp: ParseInt_def cutoff_def Let_def
      split: list.splits prod.splits option.splits strconv_err.splits if_splits)

lemma ParseInt_error:
  "ParseInt s = Inl e \<Longrightarrow> \<exists>k. e = NumError ''ParseInt'' s k"
  by (auto simp: ParseInt_def Let_def
      split: list.splits prod.splits option.splits strconv_err.splits if_splits)

lemma coerce_filter_Fail:
  "coerce_filter R fp = Fail e \<Longrightarrow>
     \<exists>f s err. fp = Some f \<and> Type f = FilterTypeVulnerability \<and> Value f = VString s \<and>
       ParseInt s = Inl err \<and> e = Wrapf err ''parse filters''"
  by (auto simp: coerce_filter_def split: option.splits if_splits gvalue.splits sum.splits)

lemma coerce_filter_Panic:
  "coerce_filter R fp = Panic \<longleftrightarrow> fp = None"
  by (auto simp: coerce_filter_def split: option.splits if_splits gvalue.splits sum.splits)

lemma coerce_filters_Ok_conv:
  "coerce_filters R fs = Ok fs' \<longleftrightarrow> list_all2 (\<lambda>a b. coerce_filter R a = Ok b) fs fs'"
proof (induction fs arbitrary: fs')
  case Nil
  then show ?case by auto
next
  case (Cons a fs)
  show ?case
    by (auto simp: list_all2_Cons1 Cons.IH [symmetric] split: outcome.splits)
qed


lemma coerce_filters_stops_Panic:
  "coerce_filters R xs = Ok xs' \<Longrightarrow> coerce_filters R (xs @ None # ys) = Panic"
proof (induction xs arbitrary: xs')
  case Nil
  then show ?case by (simp add: coerce_filter_def)
next
  case (Cons x xs)
  then show ?case by (auto split: outcome.splits)
qed

lemma coerce_filters_length:
  "coerce_filters R fs = Ok fs' \<Longrightarrow> length fs' = length fs"
  by (simp add: coerce_filters_Ok_conv list_all2_lengthD)

lemma coerce_filters_nth:
  "coerce_filters R fs = Ok fs' \<Longrightarrow> i < length fs \<Longrightarrow> coerce_filter R (fs ! i) = Ok (fs' ! i)"
  by (auto simp: coerce_filters_Ok_conv dest: list_all2_nthD)


lemma coerce_filters_Fail:
  "coerce_filters R fs = Fail e \<Longrightarrow> \<exists>fp \<in> set fs. coerce_filter R fp = Fail e"
  by (induction fs) (auto split: outcome.splits)

lemma coerce_filters_Panic:
  "coerce_filters R fs = Panic \<Longrightarrow> None \<in> set fs"
  by (induction fs) (auto simp: coerce_filter_Panic split: outcome.splits)

lemma coerce_filters_no_Panic:
  "None \<notin> set fs \<Longrightarrow> coerce_filters R fs \<noteq> Panic"
  using coerce_filters_Panic by blast

lemma parseFilters_empty: "parseFilters R [] = Ok []"
  by (simp add: parseFilters_def)

lemma parseTrigger_empty: "parseTrigger R [] = Ok None"
  by (simp add: parseTrigger_def)

lemma parseTrigger_no_Panic: "parseTrigger R s \<noteq> Panic"
  by (simp add: parseTrigger_def split: sum.splits)

lemma schema_at_set_Filters:
  "schema_at (set_Filters p fs h) a =
     (if a = p then (schema_at h p)\<lparr>Filters := fs\<rparr> else schema_at h a)"
  by (simp add: set_Filters_def)

lemma schema_at_set_Trigger:
  "schema_at (set_Trigger p t h) a =
     (if a = p then (schema_at h p)\<lparr>Trigger := t\<rparr> else schema_at h a)"
  by (simp add: set_Trigger_def)

lemma parsePolicy_Some:
  "parsePolicy R h (Some p) =
     (case parseFilters R (FiltersStr (schema_at h p)) of
        Fail err \<Rightarrow> (Fail err, h)
      | Panic \<Rightarrow> (Panic, h)
      | Ok filters \<Rightarrow>
          (case parseTrigger R (TriggerStr (schema_at h p)) of
             Fail err \<Rightarrow> (Fail err, set_Filters p filters h)
           | Panic \<Rightarrow> (Panic, set_Filters p filters h)
           | Ok trigger \<Rightarrow> (Ok (Some p), set_Trigger p trigger (set_Filters p filters h))))"
  by (simp add: parsePolicy_def Let_def schema_at_set_Filters split: outcome.splits)

lemma parsePolicy_None:
  "parsePolicy R h None = (Fail (New ''policy schema can not be nil''), h)"
  by (simp add: parsePolicy_def)

lemma parsePolicy_Ok_conv:
  "parsePolicy R h sp = (Ok r, h') \<longleftrightarrow>
     (\<exists>p fs t. sp = Some p \<and> r = Some p \<and>
        parseFilters R (FiltersStr (schema_at h p)) = Ok fs \<and>
        parseTrigger R (TriggerStr (schema_at h p)) = Ok t \<and>
        h' = set_Trigger p t (set_Filters p fs h))"
  by (cases sp) (auto simp: parsePolicy_None parsePolicy_Some split: outcome.splits)

lemma parsePolicy_raw:
  "FiltersStr (schema_at (snd (parsePolicy R h sp)) a) = FiltersStr (schema_at h a) \<and>
   TriggerStr (schema_at (snd (parsePolicy R h sp)) a) = TriggerStr (schema_at h a)"
  by (cases sp)
    (auto simp: parsePolicy_None parsePolicy_Some schema_at_set_Filters schema_at_set_Trigger
      split: outcome.splits)

lemma parsePolicy_fst_cong:
  assumes "\<And>a. FiltersStr (schema_at h' a) = FiltersStr (schema_at h a)"
    and "\<And>a. TriggerStr (schema_at h' a) = TriggerStr (schema_at h a)"
  shows "fst (parsePolicy R h' sp) = fst (parsePolicy R h sp)"
  by (cases sp) (auto simp: parsePolicy_None parsePolicy_Some assms split: outcome.splits)

lemma parsePolicy_fst_after:
  "fst (parsePolicy R (snd (parsePolicy R h s)) sp) = fst (parsePolicy R h sp)"
  by (rule parsePolicy_fst_cong) (simp_all add: parsePolicy_raw)

lemma parsePolicy_Ok_same:
  "parsePolicy R h sp = (Ok r, h') \<Longrightarrow> r = sp"
  by (auto simp: parsePolicy_Ok_conv)

lemma parse_each_raw:
  "FiltersStr (schema_at (snd (parse_each R h page)) a) = FiltersStr (schema_at h a) \<and>
   TriggerStr (schema_at (snd (parse_each R h page)) a) = TriggerStr (schema_at h a)"
proof (induction page arbitrary: h)
  case Nil
  show ?case by simp
next
  case (Cons s ss)
  obtain o1 h1 where p: "parsePolicy R h s = (o1, h1)" by (cases "parsePolicy R h s")
  obtain o2 h2 where e: "parse_each R h1 ss = (o2, h2)" by (cases "parse_each R h1 ss")
  have r1: "FiltersStr (schema_at h1 a) = FiltersStr (schema_at h a) \<and>
            TriggerStr (schema_at h1 a) = TriggerStr (schema_at h a)"
    using parsePolicy_raw [of R h s a] p by simp
  have r2: "FiltersStr (schema_at h2 a) = FiltersStr (schema_at h1 a) \<and>
            TriggerStr (schema_at h2 a) = TriggerStr (schema_at h1 a)"
    using Cons.IH [of h1] e by simp
  show ?case using p e r1 r2 by (simp split: outcome.splits)
qed



lemma parse_each_Ok_imp:
  "fst (parse_each R h page) = Ok r \<Longrightarrow>
     r = page \<and> (\<forall>sp \<in> set page. fst (parsePolicy R h sp) = Ok sp)"
proof (induction page arbitrary: h r)
  case Nil
  then show ?case by simp
next
  case (Cons s ss)
  obtain o1 h1 where p: "parsePolicy R h s = (o1, h1)" by (cases "parsePolicy R h s")
  obtain o2 h2 where e: "parse_each R h1 ss = (o2, h2)" by (cases "parse_each R h1 ss")
  from Cons.prems p e obtain s' ss' where o: "o1 = Ok s'" "o2 = Ok ss'" "r = s' # ss'"
    by (auto split: outcome.splits)
  have s': "s' = s" using p o by (simp add: parsePolicy_Ok_same)
  have ih: "ss' = ss \<and> (\<forall>sp \<in> set ss. fst (parsePolicy R h1 sp) = Ok sp)"
    using Cons.IH [of h1 ss'] e o by simp
  have "\<forall>sp \<in> set ss. fst (parsePolicy R h sp) = Ok sp"
    using ih parsePolicy_fst_after [of R h s] p by simp
  then show ?case using o s' ih p by simp
qed





lemmas ParseInt_defs = ParseInt_def ParseUint_def digit_of_def maxVal_def cutoff64_def cutoff_def

lemma coerce_filter_Ok_conv:
  "coerce_filter R fp = Ok fp' \<longleftrightarrow>
     (\<exists>f. fp = Some f \<and>
        (Type f \<noteq> FilterTypeVulnerability \<longrightarrow> fp' = Some f) \<and>
        (Type f = FilterTypeVulnerability \<longrightarrow>
           (case Value f of
              VString s \<Rightarrow> \<exists>sev. ParseInt s = Inr sev \<and> fp' = Some (f\<lparr>Value := VInt sev\<rparr>)
            | VFloat64 x \<Rightarrow> fp' = Some (f\<lparr>Value := VInt (float64_to_int R x)\<rparr>)
            | _ \<Rightarrow> fp' = Some f)))"
  by (cases fp) (auto simp: coerce_filter_def split: gvalue.splits sum.splits)

lemma trunc_bounds:
  "\<bar>rat_of_int (trunc x)\<bar> \<le> \<bar>x\<bar> \<and> \<bar>x\<bar> < \<bar>rat_of_int (trunc x)\<bar> + 1"
proof (cases "x < 0")
  case True
  have nn: "0 \<le> \<lfloor>- x\<rfloor>" using True by simp
  have "rat_of_int \<lfloor>- x\<rfloor> \<le> - x \<and> - x < rat_of_int \<lfloor>- x\<rfloor> + 1"
    by linarith
  then show ?thesis using True nn by (simp add: trunc_def)
next
  case False
  have nn: "0 \<le> \<lfloor>x\<rfloor>" using False by simp
  have "rat_of_int \<lfloor>x\<rfloor> \<le> x \<and> x < rat_of_int \<lfloor>x\<rfloor> + 1"
    by linarith
  then show ?thesis using False nn by (simp add: trunc_def)
qed

lemma coerce_7_string:
  "coerce_filter R (Some \<lparr>Type = FilterTypeVulnerability, Value = VString ''7''\<rparr>) =
     Ok (Some \<lparr>Type = FilterTypeVulnerability, Value = VInt 7\<rparr>)"
  by (simp add: coerce_filter_def ParseInt_def ParseUint_def digit_of_def maxVal_def
      cutoff64_def cutoff_def)

lemma trunc_7_9: "trunc float64_7_9 = 7"
  by (simp add: trunc_def float64_7_9_def floor_eq_iff)

lemma fits_int_7: "fits_int 7"
  by (simp add: fits_int_def)

lemma coerce_7_9_float:
  "coerce_filter R (Some \<lparr>Type = FilterTypeVulnerability, Value = VFloat64 float64_7_9\<rparr>) =
     Ok (Some \<lparr>Type = FilterTypeVulnerability, Value = VInt 7\<rparr>)"
  by (simp add: coerce_filter_def float64_to_int_def trunc_7_9 fits_int_7)

lemma parseFilters_decoded:
  "length filterStr \<noteq> 0 \<Longrightarrow> Unmarshal_filters R filterStr = Inr fs \<Longrightarrow>
     parseFilters R filterStr = coerce_filters R fs"
  by (simp add: parseFilters_def)

lemma kind_of_ParseInt_error:
  "ParseInt s = Inl err \<Longrightarrow> kind_of (Wrapf err msg) = Malformed"
  by (auto dest: ParseInt_error)




lemma coerce_filter_fields:
  assumes "coerce_filter R fp = Ok fp'"
  shows "\<exists>f f'. fp = Some f \<and> fp' = Some f' \<and> Type f' = Type f \<and>
           (Type f \<noteq> FilterTypeVulnerability \<longrightarrow> Value f' = Value f) \<and>
           (Type f = FilterTypeVulnerability \<longrightarrow>
              (is_string_or_float (Value f) \<longrightarrow> is_int (Value f')) \<and>
              (\<not> is_string_or_float (Value f) \<longrightarrow> Value f' = Value f))"
  using assms
  by (cases fp) (auto simp: coerce_filter_def split: if_splits gvalue.splits sum.splits)

lemma digit_of_char_of: "d < 10 \<Longrightarrow> digit_of (digit_char d) = Some d"
proof -
  assume "d < 10"
  then have "d \<in> {0, 1, 2, 3, 4, 5, 6, 7, 8, 9}" by auto
  then show ?thesis by (auto simp: digit_char_def digit_of_def)
qed

lemma ParseUint_loop_append:
  "ParseUint_loop n (xs @ [c]) =
     (case ParseUint_loop n xs of
        (v, None) \<Rightarrow> ParseUint_loop v [c]
      | (v, Some e) \<Rightarrow> (v, Some e))"
  by (induction xs arbitrary: n) (auto split: option.splits)

lemma decimal_nat_not_Nil: "decimal_nat n \<noteq> []"
  by (subst decimal_nat.simps) simp

lemma ParseUint_loop_decimal:
  "n \<le> maxVal \<Longrightarrow> ParseUint_loop 0 (decimal_nat n) = (n, None)"
proof (induction n rule: decimal_nat.induct)
  case (1 n)
  show ?case
  proof (cases "n < 10")
    case True
    with "1.prems" show ?thesis
      by (subst decimal_nat.simps) (simp add: digit_of_char_of cutoff64_def)
  next
    case False
    have d: "digit_of (digit_char (n mod 10)) = Some (n mod 10)"
      by (rule digit_of_char_of) simp
    have le: "n div 10 \<le> maxVal" using "1.prems" by simp
    have c: "\<not> cutoff64 \<le> n div 10" using "1.prems" by (simp add: cutoff64_def maxVal_def)
    have "ParseUint_loop 0 (decimal_nat (n div 10)) = (n div 10, None)"
      using "1.IH" False le by simp
    then show ?thesis using False d c "1.prems"
      by (subst decimal_nat.simps) (simp add: ParseUint_loop_append)
  qed
qed

lemma ParseUint_decimal:
  "n \<le> maxVal \<Longrightarrow> ParseUint (decimal_nat n) = (n, None)"
  by (simp add: ParseUint_def decimal_nat_not_Nil ParseUint_loop_decimal)

lemma decimal_nat_first_digit:
  "decimal_nat n = c # cs \<Longrightarrow> \<exists>d. digit_of c = Some d"
proof (induction n arbitrary: c cs rule: decimal_nat.induct)
  case (1 n)
  show ?case
  proof (cases "n < 10")
    case True
    then have "decimal_nat n = [digit_char n]" by (subst decimal_nat.simps) simp
    then show ?thesis using "1.prems" True digit_of_char_of by auto
  next
    case False
    then have e: "decimal_nat n = decimal_nat (n div 10) @ [digit_char (n mod 10)]"
      by (subst decimal_nat.simps) simp
    obtain c' cs' where h: "decimal_nat (n div 10) = c' # cs'"
      using decimal_nat_not_Nil [of "n div 10"] by (cases "decimal_nat (n div 10)") auto
    then have "c = c'" using e "1.prems" by simp
    then show ?thesis using "1.IH" [OF False h] by simp
  qed
qed

lemma digit_of_sign: "digit_of CHR ''-'' = None" "digit_of CHR ''+'' = None"
  by (simp_all add: digit_of_def)

lemma ParseInt_decimal:
  assumes "- (2 ^ 31) \<le> z" and "z < 2 ^ 31"
  shows "ParseInt (decimal z) = Inr z"
proof (cases "z < 0")
  case True
  have le: "nat (- z) \<le> maxVal" using assms by (simp add: maxVal_def)
  have c: "\<not> cutoff < nat (- z)" using assms by (simp add: cutoff_def)
  show ?thesis
    using True c by (simp add: decimal_def ParseInt_def ParseUint_decimal [OF le])
next
  case False
  have le: "nat z \<le> maxVal" using assms by (simp add: maxVal_def)
  have c: "\<not> cutoff \<le> nat z" using assms False by (simp add: cutoff_def)
  obtain c' cs where h: "decimal_nat (nat z) = c' # cs"
    using decimal_nat_not_Nil [of "nat z"] by (cases "decimal_nat (nat z)") auto
  then obtain d where "digit_of c' = Some d" using decimal_nat_first_digit by blast
  then have ns: "c' \<noteq> CHR ''-''" "c' \<noteq> CHR ''+''" using digit_of_sign by auto
  have "ParseUint (c' # cs) = (nat z, None)"
    using ParseUint_decimal [OF le] h by simp
  then show ?thesis
    using False c ns h by (simp add: decimal_def ParseInt_def)
qed

lemma trunc_negative:
  assumes "x < 0"
  shows "x \<le> rat_of_int (trunc x) \<and> rat_of_int (trunc x) < x + 1 \<and> trunc x \<le> 0"
proof -
  have t: "trunc x = - \<lfloor>- x\<rfloor>" using assms by (simp add: trunc_def)
  have nn: "0 \<le> \<lfloor>- x\<rfloor>" using assms by simp
  have "rat_of_int \<lfloor>- x\<rfloor> \<le> - x" "- x < rat_of_int \<lfloor>- x\<rfloor> + 1" by linarith+
  then have "x \<le> - rat_of_int \<lfloor>- x\<rfloor>" "- rat_of_int \<lfloor>- x\<rfloor> < x + 1" by linarith+
  then show ?thesis using nn unfolding t by simp
qed

lemma trunc_nonnegative:
  assumes "0 \<le> x"
  shows "rat_of_int (trunc x) \<le> x \<and> x < rat_of_int (trunc x) + 1 \<and> 0 \<le> trunc x"
proof -
  have t: "trunc x = \<lfloor>x\<rfloor>" using assms by (simp add: trunc_def)
  have "rat_of_int \<lfloor>x\<rfloor> \<le> x" "x < rat_of_int \<lfloor>x\<rfloor> + 1" by linarith+
  then show ?thesis using assms unfolding t by simp
qed

lemma trunc_minus_7_9: "trunc (- float64_7_9) = - 7"
  by (simp add: trunc_def float64_7_9_def floor_eq_iff)

lemma fits_int_32: "- (2 ^ 31) \<le> z \<Longrightarrow> z < 2 ^ 31 \<Longrightarrow> fits_int z"
  by (simp add: fits_int_def)



lemma parse_each_not_Ok:
  "sp \<in> set page \<Longrightarrow> \<forall>r. fst (parsePolicy R h sp) \<noteq> Ok r \<Longrightarrow>
     fst (parse_each R h page) \<noteq> Ok r'"
  using parse_each_Ok_imp by blast

lemma ListPolicies_page:
  "dao_List (dao m) h query = ((page, None), h1) \<Longrightarrow>
     ListPolicies R m h query = parse_each R h1 page"
  by (simp add: ListPolicies_def)

lemma fst_parsePolicy:
  "fst (parsePolicy R h (Some p)) =
     (case parseFilters R (FiltersStr (schema_at h p)) of
        Fail err \<Rightarrow> Fail err
      | Panic \<Rightarrow> Panic
      | Ok filters \<Rightarrow>
          (case parseTrigger R (TriggerStr (schema_at h p)) of
             Fail err \<Rightarrow> Fail err
           | Panic \<Rightarrow> Panic
           | Ok trigger \<Rightarrow> Ok (Some p)))"
  by (simp add: parsePolicy_Some split: outcome.splits)

lemma example_severity_decoded:
  "Unmarshal_filters example_runtime severity_text =
     Inr [Some \<lparr>Type = ''vulnerability'', Value = VString ''7''\<rparr>,
          Some \<lparr>Type = ''vulnerability'', Value = VFloat64 float64_7_9\<rparr>,
          Some \<lparr>Type = ''vulnerability'', Value = VBool True\<rparr>,
          Some \<lparr>Type = ''tag'', Value = VString ''7''\<rparr>]"
  by (simp add: example_runtime_def)

lemma example_severity_parsed:
  "parseFilters example_runtime severity_text =
     Ok [Some \<lparr>Type = ''vulnerability'', Value = VInt 7\<rparr>,
         Some \<lparr>Type = ''vulnerability'', Value = VInt 7\<rparr>,
         Some \<lparr>Type = ''vulnerability'', Value = VBool True\<rparr>,
         Some \<lparr>Type = ''tag'', Value = VString ''7''\<rparr>]"
proof -
  have f7: "float64_to_int example_runtime float64_7_9 = 7"
    by (simp add: float64_to_int_def trunc_7_9 fits_int_def)
  have p7: "ParseInt ''7'' = Inr 7"
    by (simp add: ParseInt_defs)
  have ne: "length severity_text \<noteq> 0"
    by (simp add: severity_text_def)
  show ?thesis
    using ne
    by (simp add: parseFilters_def example_severity_decoded coerce_filter_def
        FilterTypeVulnerability_def p7 f7)
qed

lemma example_unparsable_decoded:
  "Unmarshal_filters example_runtime unparsable_text =
     Inr [Some \<lparr>Type = ''vulnerability'', Value = VString ''high''\<rparr>]"
  by (simp add: example_runtime_def unparsable_text_def severity_text_def)

lemma example_unparsable_parsed:
  "parseFilters example_runtime unparsable_text =
     Fail (Wrapf (NumError ''ParseInt'' ''high'' ErrSyntax) ''parse filters'')"
proof -
  have e: "ParseInt ''high'' = Inl (NumError ''ParseInt'' ''high'' ErrSyntax)"
    by (simp add: ParseInt_defs)
  have ne: "length unparsable_text \<noteq> 0"
    by (simp add: unparsable_text_def)
  show ?thesis
    using ne
    by (simp add: parseFilters_def example_unparsable_decoded coerce_filter_def
        FilterTypeVulnerability_def e)
qed

lemma example_truncated_filters:
  "Unmarshal_filters example_runtime ''[{'' = Inl truncated_json"
  by (simp add: example_runtime_def unparsable_text_def severity_text_def bool_text_def)

lemma example_trigger_parsed:
  "parseTrigger example_runtime trigger_text = Ok (Some ''manual'')"
  by (simp add: parseTrigger_def example_runtime_def trigger_text_def)

lemma example_truncated_trigger:
  "Unmarshal_trigger example_runtime ''{'' = Inl truncated_json"
  by (simp add: example_runtime_def trigger_text_def)

lemma example_heap_raw:
  "FiltersStr (schema_at example_heap 0) = severity_text"
  "TriggerStr (schema_at example_heap 0) = trigger_text"
  "FiltersStr (schema_at example_heap 1) = []"
  "TriggerStr (schema_at example_heap 1) = []"
  "FiltersStr (schema_at example_heap (Suc 0)) = []"
  "TriggerStr (schema_at example_heap (Suc 0)) = []"
  "FiltersStr (schema_at example_heap 2) = unparsable_text"
  "TriggerStr (schema_at example_heap 2) = ''{''"
  "FiltersStr (schema_at example_heap 3) = ''[{''"
  "TriggerStr (schema_at example_heap 3) = trigger_text"
  "FiltersStr (schema_at example_heap 4) = []"
  "TriggerStr (schema_at example_heap 4) = ''{''"
  by (simp_all add: example_heap_def example_schema_def)

lemma example_truncated_filters_parsed:
  "parseFilters example_runtime ''[{'' = Fail (JSONError truncated_json)"
  by (simp add: parseFilters_def example_truncated_filters)

lemma example_truncated_trigger_parsed:
  "parseTrigger example_runtime ''{'' = Fail (JSONError truncated_json)"
  by (simp add: parseTrigger_def example_truncated_trigger)

lemma example_outcomes:
  "fst (parsePolicy example_runtime example_heap (Some 0)) = Ok (Some 0)"
  "fst (parsePolicy example_runtime example_heap (Some 1)) = Ok (Some 1)"
  "fst (parsePolicy example_runtime example_heap (Some 2)) =
     Fail (Wrapf (NumError ''ParseInt'' ''high'' ErrSyntax) ''parse filters'')"
  "fst (parsePolicy example_runtime example_heap (Some 3)) = Fail (JSONError truncated_json)"
  "fst (parsePolicy example_runtime example_heap (Some 4)) = Fail (JSONError truncated_json)"
  by (simp_all add: fst_parsePolicy example_heap_raw example_severity_parsed
      example_trigger_parsed example_unparsable_parsed parseFilters_empty parseTrigger_empty
      example_truncated_filters_parsed example_truncated_trigger_parsed)

lemma parseFilters_Fail_kind:
  assumes "parseFilters R s = Fail err"
  shows "kind_of err = Malformed"
proof (cases "Unmarshal_filters R s")
  case (Inl e)
  then show ?thesis using assms by (auto simp: parseFilters_def split: if_splits)
next
  case (Inr fs)
  then have "coerce_filters R fs = Fail err"
    using assms by (auto simp: parseFilters_def split: if_splits)
  then obtain fp where "coerce_filter R fp = Fail err"
    using coerce_filters_Fail by blast
  then obtain s' e where "ParseInt s' = Inl e" "err = Wrapf e ''parse filters''"
    using coerce_filter_Fail by blast
  then show ?thesis using kind_of_ParseInt_error [of s' e "''parse filters''"] by simp
qed

lemma parseTrigger_Fail_kind:
  "parseTrigger R s = Fail err \<Longrightarrow> kind_of err = Malformed"
  by (auto simp: parseTrigger_def split: if_splits sum.splits)

lemma parsePolicy_Fail_kind:
  "fst (parsePolicy R h (Some p)) = Fail err \<Longrightarrow> kind_of err = Malformed"
  by (auto simp: fst_parsePolicy parseFilters_Fail_kind parseTrigger_Fail_kind
      split: outcome.splits)

lemma parseFilters_undecodable:
  "length s \<noteq> 0 \<Longrightarrow> Unmarshal_filters R s = Inl e \<Longrightarrow> parseFilters R s = Fail (JSONError e)"
  by (simp add: parseFilters_def)

lemma parseTrigger_undecodable:
  "length s \<noteq> 0 \<Longrightarrow> Unmarshal_trigger R s = Inl e \<Longrightarrow> parseTrigger R s = Fail (JSONError e)"
  by (simp add: parseTrigger_def)

lemma parsePolicy_undecodable_filters:
  "length (FiltersStr (schema_at h p)) \<noteq> 0 \<Longrightarrow>
   Unmarshal_filters R (FiltersStr (schema_at h p)) = Inl e \<Longrightarrow>
     parsePolicy R h (Some p) = (Fail (JSONError e), h)"
  by (simp add: parsePolicy_Some parseFilters_undecodable)

lemma parsePolicy_undecodable_trigger:
  assumes "length (TriggerStr (schema_at h p)) \<noteq> 0"
    and "Unmarshal_trigger R (TriggerStr (schema_at h p)) = Inl e"
  shows "(\<forall>r. fst (parsePolicy R h (Some p)) \<noteq> Ok r) \<and>
         (\<forall>filters. parseFilters R (FiltersStr (schema_at h p)) = Ok filters \<longrightarrow>
            fst (parsePolicy R h (Some p)) = Fail (JSONError e))"
  using assms
  by (auto simp: fst_parsePolicy parseTrigger_undecodable split: outcome.splits)

lemma inject_project_None:
  "fst (inject_project h project None) = next_query h \<and>
   keywords_of (snd (inject_project h project None)) (next_query h) =
     [''project_id'' \<mapsto> VInt64 project]"
  by (simp add: inject_project_def new_Query_def make_map_def keywords_of_def Let_def)

lemma inject_project_Some:
  "fst (inject_project h project (Some q)) = q \<and>
   Keywords (query_at (snd (inject_project h project (Some q))) q) \<noteq> None \<and>
   keywords_of (snd (inject_project h project (Some q))) q =
     (keywords_of h q)(''project_id'' \<mapsto> VInt64 project)"
  by (cases "Keywords (query_at h q)")
    (simp_all add: inject_project_def make_map_def keywords_of_def Let_def)

lemma inject_project_twice:
  "keywords_of (snd (inject_project (snd (inject_project h project (Some q))) project (Some q))) q =
     keywords_of (snd (inject_project h project (Some q))) q"
  by (simp add: inject_project_Some)

lemma parsePolicy_queries:
  "query_at (snd (parsePolicy R h sp)) = query_at h \<and>
   map_at (snd (parsePolicy R h sp)) = map_at h"
  by (cases sp)
    (auto simp: parsePolicy_None parsePolicy_Some set_Filters_def set_Trigger_def
      split: outcome.splits)

lemma parse_each_queries:
  "query_at (snd (parse_each R h page)) = query_at h \<and>
   map_at (snd (parse_each R h page)) = map_at h"
proof (induction page arbitrary: h)
  case Nil
  show ?case by simp
next
  case (Cons s ss)
  obtain o1 h1 where p: "parsePolicy R h s = (o1, h1)" by (cases "parsePolicy R h s")
  obtain o2 h2 where e: "parse_each R h1 ss = (o2, h2)" by (cases "parse_each R h1 ss")
  have r1: "query_at h1 = query_at h \<and> map_at h1 = map_at h"
    using parsePolicy_queries [of R h s] p by simp
  have r2: "query_at h2 = query_at h1 \<and> map_at h2 = map_at h1"
    using Cons.IH [of h1] e by simp
  show ?case using p e r1 r2 by (simp split: outcome.splits)
qed

lemma ListPolicies_queries:
  assumes "dao_List (dao m) h query = ((page, err), h1)"
    and "query_at h1 = query_at h" and "map_at h1 = map_at h"
  shows "keywords_of (snd (ListPolicies R m h query)) q = keywords_of h q"
proof (cases err)
  case None
  then have "ListPolicies R m h query = parse_each R h1 page"
    using assms(1) by (simp add: ListPolicies_def)
  moreover have "query_at (snd (parse_each R h1 page)) = query_at h"
    "map_at (snd (parse_each R h1 page)) = map_at h"
    using parse_each_queries [of R h1 page] assms(2,3) by simp_all
  ultimately show ?thesis by (simp add: keywords_of_def split: option.splits)
next
  case (Some e)
  then have "ListPolicies R m h query = (Fail e, h1)"
    using assms(1) by (simp add: ListPolicies_def)
  then show ?thesis using assms(2,3) by (simp add: keywords_of_def split: option.splits)
qed

subsection \<open>The claims\<close>

text \<open>
  Claim C1. When the filters text is not empty and decodes to the sequence \<open>fs\<close>,
  \<open>parseFilters\<close> returns \<open>fs'\<close> exactly when \<open>fs'\<close> is \<open>fs\<close> with the coercion applied to the
  vulnerability filters and to no other: a string value is replaced by the integer
  \<open>ParseInt\<close> reads from it, a float64 value by its conversion to \<open>int\<close>, any other value
  and every value of a filter of another type stays as decoded. The conversion drops the
  fraction whenever the result fits Go's \<open>int\<close>. The string \<open>"7"\<close> and the float64 7.9 both
  become the integer 7.
\<close>

theorem severity_coercion:
  assumes "length filterStr \<noteq> 0"
    and "Unmarshal_filters R filterStr = Inr fs"
  shows "(parseFilters R filterStr = Ok fs' \<longleftrightarrow>
            length fs' = length fs \<and>
            (\<forall>i < length fs. \<exists>f. fs ! i = Some f \<and>
               (Type f \<noteq> FilterTypeVulnerability \<longrightarrow> fs' ! i = Some f) \<and>
               (Type f = FilterTypeVulnerability \<longrightarrow>
                  (case Value f of
                     VString s \<Rightarrow>
                       \<exists>sev. ParseInt s = Inr sev \<and> fs' ! i = Some (f\<lparr>Value := VInt sev\<rparr>)
                   | VFloat64 x \<Rightarrow> fs' ! i = Some (f\<lparr>Value := VInt (float64_to_int R x)\<rparr>)
                   | _ \<Rightarrow> fs' ! i = Some f)))) \<and>
         (\<forall>x. fits_int (trunc x) \<longrightarrow>
            float64_to_int R x = trunc x \<and>
            \<bar>rat_of_int (trunc x)\<bar> \<le> \<bar>x\<bar> \<and> \<bar>x\<bar> < \<bar>rat_of_int (trunc x)\<bar> + 1) \<and>
         coerce_filter R (Some \<lparr>Type = FilterTypeVulnerability, Value = VString ''7''\<rparr>) =
           Ok (Some \<lparr>Type = FilterTypeVulnerability, Value = VInt 7\<rparr>) \<and>
         coerce_filter R (Some \<lparr>Type = FilterTypeVulnerability, Value = VFloat64 float64_7_9\<rparr>) =
           Ok (Some \<lparr>Type = FilterTypeVulnerability, Value = VInt 7\<rparr>)"
proof -
  have "parseFilters R filterStr = coerce_filters R fs"
    using assms by (simp add: parseFilters_def)
  then have a: "parseFilters R filterStr = Ok fs' \<longleftrightarrow>
      length fs' = length fs \<and> (\<forall>i < length fs. coerce_filter R (fs ! i) = Ok (fs' ! i))"
    by (auto simp: coerce_filters_Ok_conv list_all2_conv_all_nth)
  have b: "\<forall>x. fits_int (trunc x) \<longrightarrow>
      float64_to_int R x = trunc x \<and>
      \<bar>rat_of_int (trunc x)\<bar> \<le> \<bar>x\<bar> \<and> \<bar>x\<bar> < \<bar>rat_of_int (trunc x)\<bar> + 1"
    using trunc_bounds by (simp add: float64_to_int_def)
  have c: "parseFilters R filterStr = Ok fs' \<longleftrightarrow>
            length fs' = length fs \<and>
            (\<forall>i < length fs. \<exists>f. fs ! i = Some f \<and>
               (Type f \<noteq> FilterTypeVulnerability \<longrightarrow> fs' ! i = Some f) \<and>
               (Type f = FilterTypeVulnerability \<longrightarrow>
                  (case Value f of
                     VString s \<Rightarrow>
                       \<exists>sev. ParseInt s = Inr sev \<and> fs' ! i = Some (f\<lparr>Value := VInt sev\<rparr>)
                   | VFloat64 x \<Rightarrow> fs' ! i = Some (f\<lparr>Value := VInt (float64_to_int R x)\<rparr>)
                   | _ \<Rightarrow> fs' ! i = Some f)))"
    unfolding a coerce_filter_Ok_conv by (rule refl)
  show ?thesis
    using b c coerce_7_string [of R] coerce_7_9_float [of R] by (intro conjI) assumption+
qed

theorem severity_coercion_witness:
  "length severity_text \<noteq> 0 \<and>
   Unmarshal_filters example_runtime severity_text =
     Inr [Some \<lparr>Type = ''vulnerability'', Value = VString ''7''\<rparr>,
          Some \<lparr>Type = ''vulnerability'', Value = VFloat64 float64_7_9\<rparr>,
          Some \<lparr>Type = ''vulnerability'', Value = VBool True\<rparr>,
          Some \<lparr>Type = ''tag'', Value = VString ''7''\<rparr>] \<and>
   parseFilters example_runtime severity_text =
     Ok [Some \<lparr>Type = ''vulnerability'', Value = VInt 7\<rparr>,
         Some \<lparr>Type = ''vulnerability'', Value = VInt 7\<rparr>,
         Some \<lparr>Type = ''vulnerability'', Value = VBool True\<rparr>,
         Some \<lparr>Type = ''tag'', Value = VString ''7''\<rparr>]"
proof -
  have h1: "length severity_text \<noteq> 0"
    by (simp add: severity_text_def)
  have h2: "Unmarshal_filters example_runtime severity_text =
     Inr [Some \<lparr>Type = ''vulnerability'', Value = VString ''7''\<rparr>,
          Some \<lparr>Type = ''vulnerability'', Value = VFloat64 float64_7_9\<rparr>,
          Some \<lparr>Type = ''vulnerability'', Value = VBool True\<rparr>,
          Some \<lparr>Type = ''tag'', Value = VString ''7''\<rparr>]"
    by (simp add: example_runtime_def)
  have t7: "trunc float64_7_9 = 7"
    by (simp add: trunc_def float64_7_9_def floor_eq_iff)
  have f7: "float64_to_int example_runtime float64_7_9 = 7"
    by (simp add: float64_to_int_def t7 fits_int_def)
  have p7: "ParseInt ''7'' = Inr 7"
    by (simp add: ParseInt_defs)
  note t = severity_coercion [OF h1 h2,
      of "[Some \<lparr>Type = ''vulnerability'', Value = VInt 7\<rparr>,
           Some \<lparr>Type = ''vulnerability'', Value = VInt 7\<rparr>,
           Some \<lparr>Type = ''vulnerability'', Value = VBool True\<rparr>,
           Some \<lparr>Type = ''tag'', Value = VString ''7''\<rparr>]"]
  have "parseFilters example_runtime severity_text =
     Ok [Some \<lparr>Type = ''vulnerability'', Value = VInt 7\<rparr>,
         Some \<lparr>Type = ''vulnerability'', Value = VInt 7\<rparr>,
         Some \<lparr>Type = ''vulnerability'', Value = VBool True\<rparr>,
         Some \<lparr>Type = ''tag'', Value = VString ''7''\<rparr>]"
    using t by (simp add: FilterTypeVulnerability_def f7 p7 All_less_Suc numeral_eq_Suc)
  then show ?thesis using h1 h2 by simp
qed

text \<open>
  Claim C2, as stated, fails: schema 2 of the example store has a trigger text that does
  not decode, but its filters text decodes to a severity that does not parse, and
  \<open>parsePolicy\<close> returns that parse failure before it looks at the trigger. The error it
  returns is not the decode error and does not wrap it.
\<close>

theorem severity_failure_comes_first:
  "length (TriggerStr (schema_at example_heap 2)) \<noteq> 0 \<and>
   Unmarshal_trigger example_runtime (TriggerStr (schema_at example_heap 2)) =
     Inl truncated_json \<and>
   fst (parsePolicy example_runtime example_heap (Some 2)) =
     Fail (Wrapf (NumError ''ParseInt'' ''high'' ErrSyntax) ''parse filters'') \<and>
   Wrapf (NumError ''ParseInt'' ''high'' ErrSyntax) ''parse filters'' \<noteq>
     JSONError truncated_json"
  by (simp add: example_heap_raw example_truncated_trigger example_outcomes)

text \<open>
  Claim C2, amended. On a schema whose raw filters text is not empty and does not decode,
  \<open>parsePolicy\<close> returns the decode error, of the kind Malformed, and leaves the store as it
  is. On a schema whose raw trigger text is not empty and does not decode, \<open>parsePolicy\<close>
  never succeeds, every error it returns is of the kind Malformed, and it returns the
  decode error of the trigger whenever \<open>parseFilters\<close> succeeded on the filters text. \<open>Get\<close>
  and \<open>GetByName\<close> return what \<open>parsePolicy\<close> returns on the schema the DAO gave them, and
  \<open>ListPolicies\<close> returns no list for a page that holds a schema with such a text.
\<close>

theorem undecodable_text_is_rejected:
  "(\<forall>e. length (FiltersStr (schema_at h p)) \<noteq> 0 \<and>
        Unmarshal_filters R (FiltersStr (schema_at h p)) = Inl e \<longrightarrow>
        parsePolicy R h (Some p) = (Fail (JSONError e), h) \<and>
        kind_of (JSONError e) = Malformed) \<and>
   (\<forall>e. length (TriggerStr (schema_at h p)) \<noteq> 0 \<and>
        Unmarshal_trigger R (TriggerStr (schema_at h p)) = Inl e \<longrightarrow>
        (\<forall>r. fst (parsePolicy R h (Some p)) \<noteq> Ok r) \<and>
        (\<forall>filters. parseFilters R (FiltersStr (schema_at h p)) = Ok filters \<longrightarrow>
           fst (parsePolicy R h (Some p)) = Fail (JSONError e)) \<and>
        (\<forall>err. fst (parsePolicy R h (Some p)) = Fail err \<longrightarrow> kind_of err = Malformed)) \<and>
   (\<forall>schema hg. dao_Get (dao m) h0 ident = ((schema, None), hg) \<longrightarrow>
        Get R m h0 ident = parsePolicy R hg schema) \<and>
   (\<forall>schema hg. dao_GetByName (dao m) h0 projectID name = ((schema, None), hg) \<longrightarrow>
        GetByName R m h0 projectID name = parsePolicy R hg schema) \<and>
   (\<forall>page hl q. dao_List (dao m) h0 query = ((page, None), hl) \<and> Some q \<in> set page \<and>
        (length (FiltersStr (schema_at hl q)) \<noteq> 0 \<and>
           (\<exists>e. Unmarshal_filters R (FiltersStr (schema_at hl q)) = Inl e) \<or>
         length (TriggerStr (schema_at hl q)) \<noteq> 0 \<and>
           (\<exists>e. Unmarshal_trigger R (TriggerStr (schema_at hl q)) = Inl e)) \<longrightarrow>
        (\<forall>r. fst (ListPolicies R m h0 query) \<noteq> Ok r))"
proof -
  have a: "\<forall>e. length (FiltersStr (schema_at h p)) \<noteq> 0 \<and>
        Unmarshal_filters R (FiltersStr (schema_at h p)) = Inl e \<longrightarrow>
        parsePolicy R h (Some p) = (Fail (JSONError e), h) \<and>
        kind_of (JSONError e) = Malformed"
    by (simp add: parsePolicy_undecodable_filters)
  have b: "\<forall>e. length (TriggerStr (schema_at h p)) \<noteq> 0 \<and>
        Unmarshal_trigger R (TriggerStr (schema_at h p)) = Inl e \<longrightarrow>
        (\<forall>r. fst (parsePolicy R h (Some p)) \<noteq> Ok r) \<and>
        (\<forall>filters. parseFilters R (FiltersStr (schema_at h p)) = Ok filters \<longrightarrow>
           fst (parsePolicy R h (Some p)) = Fail (JSONError e)) \<and>
        (\<forall>err. fst (parsePolicy R h (Some p)) = Fail err \<longrightarrow> kind_of err = Malformed)"
    using parsePolicy_undecodable_trigger [of h p R] parsePolicy_Fail_kind [of R h p]
    by blast
  have c: "\<forall>schema hg. dao_Get (dao m) h0 ident = ((schema, None), hg) \<longrightarrow>
        Get R m h0 ident = parsePolicy R hg schema"
    by (simp add: Get_def)
  have d: "\<forall>schema hg. dao_GetByName (dao m) h0 projectID name = ((schema, None), hg) \<longrightarrow>
        GetByName R m h0 projectID name = parsePolicy R hg schema"
    by (simp add: GetByName_def)
  have e: "\<forall>page hl q. dao_List (dao m) h0 query = ((page, None), hl) \<and> Some q \<in> set page \<and>
        (length (FiltersStr (schema_at hl q)) \<noteq> 0 \<and>
           (\<exists>e. Unmarshal_filters R (FiltersStr (schema_at hl q)) = Inl e) \<or>
         length (TriggerStr (schema_at hl q)) \<noteq> 0 \<and>
           (\<exists>e. Unmarshal_trigger R (TriggerStr (schema_at hl q)) = Inl e)) \<longrightarrow>
        (\<forall>r. fst (ListPolicies R m h0 query) \<noteq> Ok r)"
  proof (intro allI impI)
    fix page hl q r
    assume h: "dao_List (dao m) h0 query = ((page, None), hl) \<and> Some q \<in> set page \<and>
        (length (FiltersStr (schema_at hl q)) \<noteq> 0 \<and>
           (\<exists>e. Unmarshal_filters R (FiltersStr (schema_at hl q)) = Inl e) \<or>
         length (TriggerStr (schema_at hl q)) \<noteq> 0 \<and>
           (\<exists>e. Unmarshal_trigger R (TriggerStr (schema_at hl q)) = Inl e))"
    then have lp: "ListPolicies R m h0 query = parse_each R hl page"
      by (simp add: ListPolicies_page)
    have "\<forall>r. fst (parsePolicy R hl (Some q)) \<noteq> Ok r"
      using h parsePolicy_undecodable_filters [of hl q R]
        parsePolicy_undecodable_trigger [of hl q R]
      by (metis fst_conv outcome.distinct(1))
    then show "fst (ListPolicies R m h0 query) \<noteq> Ok r"
      unfolding lp using h parse_each_not_Ok by blast
  qed
  show ?thesis using a b c d e by (intro conjI) assumption+
qed

theorem undecodable_text_is_rejected_witness:
  "length (FiltersStr (schema_at example_heap 3)) \<noteq> 0 \<and>
   Unmarshal_filters example_runtime (FiltersStr (schema_at example_heap 3)) =
     Inl truncated_json \<and>
   parsePolicy example_runtime example_heap (Some 3) =
     (Fail (JSONError truncated_json), example_heap) \<and>
   length (TriggerStr (schema_at example_heap 4)) \<noteq> 0 \<and>
   Unmarshal_trigger example_runtime (TriggerStr (schema_at example_heap 4)) =
     Inl truncated_json \<and>
   parseFilters example_runtime (FiltersStr (schema_at example_heap 4)) = Ok [] \<and>
   fst (parsePolicy example_runtime example_heap (Some 4)) = Fail (JSONError truncated_json) \<and>
   dao_Get (dao example_manager) example_heap 1 = ((Some 0, None), example_heap) \<and>
   Get example_runtime example_manager example_heap 1 =
     parsePolicy example_runtime example_heap (Some 0) \<and>
   dao_List (dao example_manager) example_heap (Some 0) =
     (([Some 0, Some 4, Some 1], None), example_heap) \<and>
   fst (ListPolicies example_runtime example_manager example_heap (Some 0)) \<noteq>
     Ok [Some 0, Some 4, Some 1]"
proof -
  note t3 = undecodable_text_is_rejected [of example_heap 3 example_runtime example_manager
      example_heap 1 0 "''nightly''" "Some 0"]
  note t4 = undecodable_text_is_rejected [of example_heap 4 example_runtime example_manager
      example_heap 1 0 "''nightly''" "Some 0"]
  have f1: "length (FiltersStr (schema_at example_heap 3)) \<noteq> 0"
    and f2: "Unmarshal_filters example_runtime (FiltersStr (schema_at example_heap 3)) =
      Inl truncated_json"
    by (simp_all add: example_heap_raw example_truncated_filters)
  from f1 f2 have
    "length (FiltersStr (schema_at example_heap 3)) \<noteq> 0 \<and>
     Unmarshal_filters example_runtime (FiltersStr (schema_at example_heap 3)) =
       Inl truncated_json" ..
  then have a: "parsePolicy example_runtime example_heap (Some 3) =
      (Fail (JSONError truncated_json), example_heap)"
    by (rule t3 [THEN conjunct1, THEN spec, THEN mp, THEN conjunct1])
  have g1: "length (TriggerStr (schema_at example_heap 4)) \<noteq> 0"
    and g2: "Unmarshal_trigger example_runtime (TriggerStr (schema_at example_heap 4)) =
      Inl truncated_json"
    and g3: "parseFilters example_runtime (FiltersStr (schema_at example_heap 4)) = Ok []"
    by (simp_all add: example_heap_raw example_truncated_trigger parseFilters_empty)
  from g1 g2 have
    "length (TriggerStr (schema_at example_heap 4)) \<noteq> 0 \<and>
     Unmarshal_trigger example_runtime (TriggerStr (schema_at example_heap 4)) =
       Inl truncated_json" ..
  then have "\<forall>filters.
      parseFilters example_runtime (FiltersStr (schema_at example_heap 4)) = Ok filters \<longrightarrow>
      fst (parsePolicy example_runtime example_heap (Some 4)) = Fail (JSONError truncated_json)"
    by (rule t4 [THEN conjunct2, THEN conjunct1, THEN spec, THEN mp,
          THEN conjunct2, THEN conjunct1])
  then have b: "fst (parsePolicy example_runtime example_heap (Some 4)) =
      Fail (JSONError truncated_json)"
    using g3 by blast
  have d1: "dao_Get (dao example_manager) example_heap 1 = ((Some 0, None), example_heap)"
    by (simp add: example_manager_def)
  then have c: "Get example_runtime example_manager example_heap 1 =
      parsePolicy example_runtime example_heap (Some 0)"
    by (rule t3 [THEN conjunct2, THEN conjunct2, THEN conjunct1, THEN spec, THEN spec, THEN mp])
  have l1: "dao_List (dao example_manager) example_heap (Some 0) =
      (([Some 0, Some 4, Some 1], None), example_heap)"
    by (simp add: example_manager_def)
  have "dao_List (dao example_manager) example_heap (Some 0) =
          (([Some 0, Some 4, Some 1], None), example_heap) \<and>
        Some 4 \<in> set [Some 0, Some 4, Some 1] \<and>
        (length (FiltersStr (schema_at example_heap 4)) \<noteq> 0 \<and>
           (\<exists>e. Unmarshal_filters example_runtime (FiltersStr (schema_at example_heap 4)) =
              Inl e) \<or>
         length (TriggerStr (schema_at example_heap 4)) \<noteq> 0 \<and>
           (\<exists>e. Unmarshal_trigger example_runtime (TriggerStr (schema_at example_heap 4)) =
              Inl e))"
    using l1 g1 g2 by simp
  then have "\<forall>r. fst (ListPolicies example_runtime example_manager example_heap (Some 0)) \<noteq>
      Ok r"
    by (rule t3 [THEN conjunct2, THEN conjunct2, THEN conjunct2, THEN conjunct2,
          THEN spec, THEN spec, THEN spec, THEN mp])
  then have e: "fst (ListPolicies example_runtime example_manager example_heap (Some 0)) \<noteq>
      Ok [Some 0, Some 4, Some 1]" ..
  show ?thesis by (intro conjI f1 f2 a g1 g2 g3 b d1 c l1 e)
qed

text \<open>
  Claim C3. On the nil schema \<open>parsePolicy\<close> returns the error
  \<open>errors.New("policy schema can not be nil")\<close>, of the kind InvalidInput, and leaves the
  store as it is; it does not panic.
\<close>

theorem nil_schema_invalid_input:
  "parsePolicy R h None = (Fail (New ''policy schema can not be nil''), h) \<and>
   kind_of (New ''policy schema can not be nil'') = InvalidInput \<and>
   fst (parsePolicy R h None) \<noteq> Panic"
  by (simp add: parsePolicy_def)



text \<open>
  Claim C5. On a schema whose raw filters text and raw trigger text are both empty,
  \<open>parsePolicy\<close> succeeds, with no filters and no trigger in the schema.
\<close>

theorem empty_raw_fields:
  assumes "length (FiltersStr (schema_at h p)) = 0"
    and "length (TriggerStr (schema_at h p)) = 0"
  shows "parsePolicy R h (Some p) = (Ok (Some p), set_Trigger p None (set_Filters p [] h)) \<and>
         Filters (schema_at (snd (parsePolicy R h (Some p))) p) = [] \<and>
         Trigger (schema_at (snd (parsePolicy R h (Some p))) p) = None \<and>
         parseFilters R (FiltersStr (schema_at h p)) = Ok [] \<and>
         parseTrigger R (TriggerStr (schema_at h p)) = Ok None"
  using assms
  by (simp add: parsePolicy_Some parseFilters_def parseTrigger_def
      schema_at_set_Filters schema_at_set_Trigger)

theorem empty_raw_fields_witness:
  "length (FiltersStr (schema_at example_heap 1)) = 0 \<and>
   length (TriggerStr (schema_at example_heap 1)) = 0 \<and>
   fst (parsePolicy example_runtime example_heap (Some 1)) = Ok (Some 1) \<and>
   Filters (schema_at (snd (parsePolicy example_runtime example_heap (Some 1))) 1) = [] \<and>
   Trigger (schema_at (snd (parsePolicy example_runtime example_heap (Some 1))) 1) = None"
proof -
  have h1: "length (FiltersStr (schema_at example_heap 1)) = 0"
    by (simp add: example_heap_def example_schema_def)
  have h2: "length (TriggerStr (schema_at example_heap 1)) = 0"
    by (simp add: example_heap_def example_schema_def)
  show ?thesis
    using h1 h2 empty_raw_fields [OF h1 h2, of example_runtime]
    by (simp add: schema_at_set_Filters schema_at_set_Trigger)
qed

text \<open>
  Claim C6. \<open>ListPoliciesByProject\<close> is \<open>ListPolicies\<close> on the query and the store that lines
  122 to 130 leave. With the nil query the query is a new one, and its keyword map holds
  the single entry of \<open>"project_id"\<close> and the project. With a query of the caller the
  query that goes on is the caller's own pointer, its keyword map exists, and read
  through that pointer it is the map of before with the project written under
  \<open>"project_id"\<close>: the single entry when the map was nil or empty, and the same map again
  after a second call. When the DAO leaves queries and keyword maps alone, that is also
  the keyword map after the whole call.
\<close>

theorem ListPoliciesByProject_injects_project:
  fixes R :: "'t runtime" and m :: "('t, 'm) manager" and h :: "('t, 'm) heap"
    and project :: int and query :: "ref option"
  defines "q' \<equiv> fst (inject_project h project query)"
    and "h' \<equiv> snd (inject_project h project query)"
  shows "ListPoliciesByProject R m h project query = ListPolicies R m h' (Some q') \<and>
         (query = None \<longrightarrow>
            q' = next_query h \<and>
            keywords_of h' q' = [''project_id'' \<mapsto> VInt64 project]) \<and>
         (\<forall>q. query = Some q \<longrightarrow>
            q' = q \<and>
            Keywords (query_at h' q) \<noteq> None \<and>
            keywords_of h' q = (keywords_of h q)(''project_id'' \<mapsto> VInt64 project) \<and>
            (keywords_of h q = Map.empty \<longrightarrow>
               keywords_of h' q = [''project_id'' \<mapsto> VInt64 project]) \<and>
            keywords_of (snd (inject_project h' project (Some q))) q = keywords_of h' q) \<and>
         (\<forall>page err h1.
            dao_List (dao m) h' (Some q') = ((page, err), h1) \<and>
            query_at h1 = query_at h' \<and> map_at h1 = map_at h' \<longrightarrow>
            keywords_of (snd (ListPoliciesByProject R m h project query)) q' =
              keywords_of h' q')"
proof -
  have a: "ListPoliciesByProject R m h project query = ListPolicies R m h' (Some q')"
    unfolding q'_def h'_def by (simp add: ListPoliciesByProject_def split: prod.splits)
  have b: "query = None \<longrightarrow>
            q' = next_query h \<and>
            keywords_of h' q' = [''project_id'' \<mapsto> VInt64 project]"
    unfolding q'_def h'_def using inject_project_None [of h project] by simp
  have c: "\<forall>q. query = Some q \<longrightarrow>
            q' = q \<and>
            Keywords (query_at h' q) \<noteq> None \<and>
            keywords_of h' q = (keywords_of h q)(''project_id'' \<mapsto> VInt64 project) \<and>
            (keywords_of h q = Map.empty \<longrightarrow>
               keywords_of h' q = [''project_id'' \<mapsto> VInt64 project]) \<and>
            keywords_of (snd (inject_project h' project (Some q))) q = keywords_of h' q"
    unfolding q'_def h'_def
    using inject_project_Some [of h project] inject_project_twice [of h project] by simp
  have d: "\<forall>page err h1.
            dao_List (dao m) h' (Some q') = ((page, err), h1) \<and>
            query_at h1 = query_at h' \<and> map_at h1 = map_at h' \<longrightarrow>
            keywords_of (snd (ListPoliciesByProject R m h project query)) q' =
              keywords_of h' q'"
    unfolding a using ListPolicies_queries by blast
  show ?thesis using a b c d by (intro conjI) assumption+
qed

theorem ListPoliciesByProject_injects_project_witness:
  "fst (inject_project example_heap 7 None) = 2 \<and>
   keywords_of (snd (inject_project example_heap 7 None)) 2 =
     [''project_id'' \<mapsto> VInt64 7] \<and>
   keywords_of example_heap 1 = Map.empty \<and>
   keywords_of (snd (inject_project example_heap 7 (Some 1))) 1 =
     [''project_id'' \<mapsto> VInt64 7] \<and>
   keywords_of (snd (inject_project example_heap 7 (Some 0))) 0 =
     [''name'' \<mapsto> VString ''nightly'', ''project_id'' \<mapsto> VInt64 7] \<and>
   ListPoliciesByProject example_runtime example_manager example_heap 7 (Some 1) =
     ListPolicies example_runtime example_manager (snd (inject_project example_heap 7 (Some 1)))
       (Some 1)"
proof -
  note tn = ListPoliciesByProject_injects_project
      [of example_runtime example_manager example_heap 7 None]
  note t1 = ListPoliciesByProject_injects_project
      [of example_runtime example_manager example_heap 7 "Some 1"]
  note t0 = ListPoliciesByProject_injects_project
      [of example_runtime example_manager example_heap 7 "Some 0"]
  have nq: "next_query example_heap = 2"
    by (simp add: example_heap_def)
  have n: "fst (inject_project example_heap 7 None) = next_query example_heap \<and>
      keywords_of (snd (inject_project example_heap 7 None))
        (fst (inject_project example_heap 7 None)) = [''project_id'' \<mapsto> VInt64 7]"
    by (rule tn [THEN conjunct2, THEN conjunct1, THEN mp]) (rule refl)
  have a: "fst (inject_project example_heap 7 None) = 2"
    using n nq by simp
  have b: "keywords_of (snd (inject_project example_heap 7 None)) 2 =
      [''project_id'' \<mapsto> VInt64 7]"
    using n a by simp
  have e: "keywords_of example_heap 1 = Map.empty"
    by (simp add: keywords_of_def example_heap_def)
  have s1: "fst (inject_project example_heap 7 (Some 1)) = 1 \<and>
      Keywords (query_at (snd (inject_project example_heap 7 (Some 1))) 1) \<noteq> None \<and>
      keywords_of (snd (inject_project example_heap 7 (Some 1))) 1 =
        (keywords_of example_heap 1)(''project_id'' \<mapsto> VInt64 7) \<and>
      (keywords_of example_heap 1 = Map.empty \<longrightarrow>
         keywords_of (snd (inject_project example_heap 7 (Some 1))) 1 =
           [''project_id'' \<mapsto> VInt64 7]) \<and>
      keywords_of (snd (inject_project (snd (inject_project example_heap 7 (Some 1))) 7
         (Some 1))) 1 = keywords_of (snd (inject_project example_heap 7 (Some 1))) 1"
    by (rule t1 [THEN conjunct2, THEN conjunct2, THEN conjunct1, THEN spec, THEN mp]) (rule refl)
  have c: "keywords_of (snd (inject_project example_heap 7 (Some 1))) 1 =
      [''project_id'' \<mapsto> VInt64 7]"
    using s1 e by blast
  have s0: "fst (inject_project example_heap 7 (Some 0)) = 0 \<and>
      Keywords (query_at (snd (inject_project example_heap 7 (Some 0))) 0) \<noteq> None \<and>
      keywords_of (snd (inject_project example_heap 7 (Some 0))) 0 =
        (keywords_of example_heap 0)(''project_id'' \<mapsto> VInt64 7) \<and>
      (keywords_of example_heap 0 = Map.empty \<longrightarrow>
         keywords_of (snd (inject_project example_heap 7 (Some 0))) 0 =
           [''project_id'' \<mapsto> VInt64 7]) \<and>
      keywords_of (snd (inject_project (snd (inject_project example_heap 7 (Some 0))) 7
         (Some 0))) 0 = keywords_of (snd (inject_project example_heap 7 (Some 0))) 0"
    by (rule t0 [THEN conjunct2, THEN conjunct2, THEN conjunct1, THEN spec, THEN mp]) (rule refl)
  have k0: "keywords_of example_heap 0 = [''name'' \<mapsto> VString ''nightly'']"
    by (simp add: keywords_of_def example_heap_def)
  have d: "keywords_of (snd (inject_project example_heap 7 (Some 0))) 0 =
      [''name'' \<mapsto> VString ''nightly'', ''project_id'' \<mapsto> VInt64 7]"
    using s0 k0 by simp
  have f: "ListPoliciesByProject example_runtime example_manager example_heap 7 (Some 1) =
     ListPolicies example_runtime example_manager (snd (inject_project example_heap 7 (Some 1)))
       (Some 1)"
    using t1 [THEN conjunct1] s1 by simp
  show ?thesis by (intro conjI a b e c d f)
qed



text \<open>
  Claim C8, as stated, fails: a vulnerability filter whose decoded value is a bool keeps
  it, so its value is not an integer after \<open>parseFilters\<close>.
\<close>

theorem bool_severity_stays_bool:
  "length bool_text \<noteq> 0 \<and>
   Unmarshal_filters example_runtime bool_text =
     Inr [Some \<lparr>Type = FilterTypeVulnerability, Value = VBool True\<rparr>] \<and>
   parseFilters example_runtime bool_text =
     Ok [Some \<lparr>Type = FilterTypeVulnerability, Value = VBool True\<rparr>] \<and>
   \<not> is_int (VBool True)"
proof -
  have h1: "length bool_text \<noteq> 0"
    by (simp add: bool_text_def)
  have h2: "Unmarshal_filters example_runtime bool_text =
     Inr [Some \<lparr>Type = FilterTypeVulnerability, Value = VBool True\<rparr>]"
    by (simp add: example_runtime_def bool_text_def severity_text_def unparsable_text_def
        FilterTypeVulnerability_def)
  have "parseFilters example_runtime bool_text =
     Ok [Some \<lparr>Type = FilterTypeVulnerability, Value = VBool True\<rparr>]"
    using h1 by (simp add: parseFilters_def h2 coerce_filter_def)
  then show ?thesis using h1 h2 by simp
qed

text \<open>
  Claim C8, amended. When the filters text is not empty, decodes to \<open>fs\<close> and
  \<open>parseFilters\<close> returns \<open>fs'\<close>, then \<open>fs'\<close> has the filters of \<open>fs\<close> in the same order and the
  same number; every filter keeps its type; a filter of another type than vulnerability
  keeps its value; the value of a vulnerability filter is an integer when it was decoded
  as a string or a float64, and is the decoded value otherwise.
\<close>

theorem filters_representation_stable:
  assumes "length filterStr \<noteq> 0"
    and "Unmarshal_filters R filterStr = Inr fs"
    and "parseFilters R filterStr = Ok fs'"
  shows "length fs' = length fs \<and>
         (\<forall>i < length fs. \<exists>f f'.
            fs ! i = Some f \<and> fs' ! i = Some f' \<and> Type f' = Type f \<and>
            (Type f \<noteq> FilterTypeVulnerability \<longrightarrow> Value f' = Value f) \<and>
            (Type f = FilterTypeVulnerability \<longrightarrow>
               (is_string_or_float (Value f) \<longrightarrow> is_int (Value f')) \<and>
               (\<not> is_string_or_float (Value f) \<longrightarrow> Value f' = Value f)))"
proof -
  have ok: "coerce_filters R fs = Ok fs'"
    using assms by (simp add: parseFilters_decoded)
  have len: "length fs' = length fs"
    using ok by (rule coerce_filters_length)
  have "\<forall>i < length fs. coerce_filter R (fs ! i) = Ok (fs' ! i)"
    using ok by (simp add: coerce_filters_nth)
  then show ?thesis using len coerce_filter_fields by blast
qed

theorem filters_representation_stable_witness:
  "length severity_text \<noteq> 0 \<and>
   Unmarshal_filters example_runtime severity_text =
     Inr [Some \<lparr>Type = ''vulnerability'', Value = VString ''7''\<rparr>,
          Some \<lparr>Type = ''vulnerability'', Value = VFloat64 float64_7_9\<rparr>,
          Some \<lparr>Type = ''vulnerability'', Value = VBool True\<rparr>,
          Some \<lparr>Type = ''tag'', Value = VString ''7''\<rparr>] \<and>
   parseFilters example_runtime severity_text =
     Ok [Some \<lparr>Type = ''vulnerability'', Value = VInt 7\<rparr>,
         Some \<lparr>Type = ''vulnerability'', Value = VInt 7\<rparr>,
         Some \<lparr>Type = ''vulnerability'', Value = VBool True\<rparr>,
         Some \<lparr>Type = ''tag'', Value = VString ''7''\<rparr>] \<and>
   length [Some \<lparr>Type = ''vulnerability'', Value = VInt 7\<rparr>,
         Some \<lparr>Type = ''vulnerability'', Value = VInt 7\<rparr>,
         Some \<lparr>Type = ''vulnerability'', Value = VBool True\<rparr>,
         Some \<lparr>Type = ''tag'', Value = VString ''7''\<rparr>] = 4"
proof -
  have h1: "length severity_text \<noteq> 0"
    by (simp add: severity_text_def)
  have h2: "Unmarshal_filters example_runtime severity_text =
     Inr [Some \<lparr>Type = ''vulnerability'', Value = VString ''7''\<rparr>,
          Some \<lparr>Type = ''vulnerability'', Value = VFloat64 float64_7_9\<rparr>,
          Some \<lparr>Type = ''vulnerability'', Value = VBool True\<rparr>,
          Some \<lparr>Type = ''tag'', Value = VString ''7''\<rparr>]"
    by (simp add: example_runtime_def)
  have f7: "float64_to_int example_runtime float64_7_9 = 7"
    by (simp add: float64_to_int_def trunc_7_9 fits_int_def)
  have p7: "ParseInt ''7'' = Inr 7"
    by (simp add: ParseInt_defs)
  have h3: "parseFilters example_runtime severity_text =
     Ok [Some \<lparr>Type = ''vulnerability'', Value = VInt 7\<rparr>,
         Some \<lparr>Type = ''vulnerability'', Value = VInt 7\<rparr>,
         Some \<lparr>Type = ''vulnerability'', Value = VBool True\<rparr>,
         Some \<lparr>Type = ''tag'', Value = VString ''7''\<rparr>]"
    using h1 by (simp add: parseFilters_def h2 coerce_filter_def FilterTypeVulnerability_def p7 f7)
  show ?thesis
    using h1 h2 h3 filters_representation_stable [OF h1 h2 h3] by simp
qed

text \<open>
  Claim C9. When \<open>parsePolicy\<close> succeeds it returns the pointer it was given, and the store
  differs from the one before only in the fields \<open>Filters\<close> and \<open>Trigger\<close> of the object at
  that pointer: its raw texts and its other fields, every other schema, the queries and
  the keyword maps are as before.
\<close>

theorem parsePolicy_frame:
  assumes "parsePolicy R h schema = (Ok r, h')"
  shows "r = schema \<and>
         (\<exists>p filters trigger.
            schema = Some p \<and>
            parseFilters R (FiltersStr (schema_at h p)) = Ok filters \<and>
            parseTrigger R (TriggerStr (schema_at h p)) = Ok trigger \<and>
            schema_at h' p = (schema_at h p)\<lparr>Filters := filters, Trigger := trigger\<rparr> \<and>
            FiltersStr (schema_at h' p) = FiltersStr (schema_at h p) \<and>
            TriggerStr (schema_at h' p) = TriggerStr (schema_at h p) \<and>
            Schema.more (schema_at h' p) = Schema.more (schema_at h p) \<and>
            (\<forall>a. a \<noteq> p \<longrightarrow> schema_at h' a = schema_at h a)) \<and>
         query_at h' = query_at h \<and> map_at h' = map_at h \<and>
         next_query h' = next_query h \<and> next_map h' = next_map h"
  using assms
  by (auto simp: parsePolicy_Ok_conv set_Filters_def set_Trigger_def)

theorem parsePolicy_frame_witness:
  "parsePolicy example_runtime example_heap (Some 0) =
     (Ok (Some 0),
      set_Trigger 0 (Some ''manual'')
        (set_Filters 0
           [Some \<lparr>Type = ''vulnerability'', Value = VInt 7\<rparr>,
            Some \<lparr>Type = ''vulnerability'', Value = VInt 7\<rparr>,
            Some \<lparr>Type = ''vulnerability'', Value = VBool True\<rparr>,
            Some \<lparr>Type = ''tag'', Value = VString ''7''\<rparr>] example_heap)) \<and>
   FiltersStr (schema_at (snd (parsePolicy example_runtime example_heap (Some 0))) 0) =
     severity_text \<and>
   TriggerStr (schema_at (snd (parsePolicy example_runtime example_heap (Some 0))) 0) =
     trigger_text"
proof -
  have t7: "trunc float64_7_9 = 7"
    by (simp add: trunc_def float64_7_9_def floor_eq_iff)
  have f7: "float64_to_int example_runtime float64_7_9 = 7"
    by (simp add: float64_to_int_def t7 fits_int_def)
  have p7: "ParseInt ''7'' = Inr 7"
    by (simp add: ParseInt_defs)
  have fs: "FiltersStr (schema_at example_heap 0) = severity_text"
    and ts: "TriggerStr (schema_at example_heap 0) = trigger_text"
    by (simp_all add: example_heap_def example_schema_def)
  have um: "Unmarshal_filters example_runtime severity_text =
     Inr [Some \<lparr>Type = ''vulnerability'', Value = VString ''7''\<rparr>,
          Some \<lparr>Type = ''vulnerability'', Value = VFloat64 float64_7_9\<rparr>,
          Some \<lparr>Type = ''vulnerability'', Value = VBool True\<rparr>,
          Some \<lparr>Type = ''tag'', Value = VString ''7''\<rparr>]"
    by (simp add: example_runtime_def)
  have ne: "length severity_text \<noteq> 0"
    by (simp add: severity_text_def)
  have pf: "parseFilters example_runtime severity_text =
     Ok [Some \<lparr>Type = ''vulnerability'', Value = VInt 7\<rparr>,
         Some \<lparr>Type = ''vulnerability'', Value = VInt 7\<rparr>,
         Some \<lparr>Type = ''vulnerability'', Value = VBool True\<rparr>,
         Some \<lparr>Type = ''tag'', Value = VString ''7''\<rparr>]"
    using ne by (simp add: parseFilters_def um coerce_filter_def FilterTypeVulnerability_def p7 f7)
  have pt: "parseTrigger example_runtime trigger_text = Ok (Some ''manual'')"
    by (simp add: parseTrigger_def example_runtime_def trigger_text_def)
  have e: "parsePolicy example_runtime example_heap (Some 0) =
     (Ok (Some 0),
      set_Trigger 0 (Some ''manual'')
        (set_Filters 0
           [Some \<lparr>Type = ''vulnerability'', Value = VInt 7\<rparr>,
            Some \<lparr>Type = ''vulnerability'', Value = VInt 7\<rparr>,
            Some \<lparr>Type = ''vulnerability'', Value = VBool True\<rparr>,
            Some \<lparr>Type = ''tag'', Value = VString ''7''\<rparr>] example_heap))"
    by (simp add: parsePolicy_Some fs ts pf pt)
  show ?thesis
    using e parsePolicy_frame [OF e] fs ts by auto
qed

text \<open>
  Claim C10. The conversion of a float64 to \<open>int\<close> is the truncation whenever that fits;
  the truncation of a negative number lies between the number and zero, less than one
  away from it, so it rounds towards zero (the float64 nearest to -7.9 becomes -7). For
  every integer of the signed 32-bit range \<open>ParseInt\<close> reads it back from its decimal
  numeral, the coercion stores it as Go's \<open>int\<close>, and \<open>ParseInt\<close> returns no integer outside
  that range.
\<close>

theorem severity_numerics:
  "(fits_int (trunc x) \<longrightarrow> float64_to_int R x = trunc x) \<and>
   (x < 0 \<longrightarrow> x \<le> rat_of_int (trunc x) \<and> rat_of_int (trunc x) < x + 1 \<and> trunc x \<le> 0) \<and>
   (0 \<le> x \<longrightarrow> rat_of_int (trunc x) \<le> x \<and> x < rat_of_int (trunc x) + 1 \<and> 0 \<le> trunc x) \<and>
   coerce_filter R (Some \<lparr>Type = FilterTypeVulnerability, Value = VFloat64 (- float64_7_9)\<rparr>) =
     Ok (Some \<lparr>Type = FilterTypeVulnerability, Value = VInt (- 7)\<rparr>) \<and>
   (- (2 ^ 31) \<le> z \<and> z < 2 ^ 31 \<longrightarrow>
      ParseInt (decimal z) = Inr z \<and> fits_int z \<and>
      coerce_filter R (Some \<lparr>Type = FilterTypeVulnerability, Value = VString (decimal z)\<rparr>) =
        Ok (Some \<lparr>Type = FilterTypeVulnerability, Value = VInt z\<rparr>)) \<and>
   (\<forall>s v. ParseInt s = Inr v \<longrightarrow> - (2 ^ 31) \<le> v \<and> v < 2 ^ 31)"
proof -
  have a: "fits_int (trunc x) \<longrightarrow> float64_to_int R x = trunc x"
    by (simp add: float64_to_int_def)
  have b: "coerce_filter R (Some \<lparr>Type = FilterTypeVulnerability, Value = VFloat64 (- float64_7_9)\<rparr>) =
     Ok (Some \<lparr>Type = FilterTypeVulnerability, Value = VInt (- 7)\<rparr>)"
    by (simp add: coerce_filter_def float64_to_int_def trunc_minus_7_9 fits_int_def)
  have c: "- (2 ^ 31) \<le> z \<and> z < 2 ^ 31 \<longrightarrow>
      ParseInt (decimal z) = Inr z \<and> fits_int z \<and>
      coerce_filter R (Some \<lparr>Type = FilterTypeVulnerability, Value = VString (decimal z)\<rparr>) =
        Ok (Some \<lparr>Type = FilterTypeVulnerability, Value = VInt z\<rparr>)"
    by (simp add: ParseInt_decimal fits_int_32 coerce_filter_def)
  have d: "\<forall>s v. ParseInt s = Inr v \<longrightarrow> - (2 ^ 31) \<le> v \<and> v < 2 ^ 31"
    using ParseInt_range by blast
  show ?thesis
    using a b c d trunc_negative [of x] trunc_nonnegative [of x] by (intro conjI) blast+
qed

theorem severity_numerics_witness:
  "fits_int (trunc (- float64_7_9)) \<and>
   float64_to_int example_runtime (- float64_7_9) = - 7 \<and>
   - float64_7_9 < 0 \<and>
   - (2 ^ 31) \<le> (- 2147483648 :: int) \<and> (- 2147483648 :: int) < 2 ^ 31 \<and>
   decimal (- 2147483648) = ''-2147483648'' \<and>
   ParseInt ''-2147483648'' = Inr (- 2147483648) \<and>
   ParseInt ''2147483648'' = Inl (NumError ''ParseInt'' ''2147483648'' ErrRange)"
proof -
  have h1: "fits_int (trunc (- float64_7_9))"
    by (simp add: trunc_minus_7_9 fits_int_def)
  have h2: "- float64_7_9 < 0"
    by (simp add: float64_7_9_def)
  have h3: "- (2 ^ 31) \<le> (- 2147483648 :: int) \<and> (- 2147483648 :: int) < 2 ^ 31"
    by simp
  have d: "decimal (- 2147483648) = ''-2147483648''"
    by (simp add: decimal_def decimal_nat.simps digit_char_def)
  have r: "ParseInt ''2147483648'' = Inl (NumError ''ParseInt'' ''2147483648'' ErrRange)"
    by (simp add: ParseInt_defs)
  note t = severity_numerics [of "- float64_7_9" example_runtime "- 2147483648"]
  have f: "float64_to_int example_runtime (- float64_7_9) = - 7"
    using t h1 trunc_minus_7_9 by simp
  have p: "ParseInt (decimal (- 2147483648)) = Inr (- 2147483648)"
    using t h3 by blast
  show ?thesis
    using h1 h2 h3 d r f p by simp
qed

end
